theory Spec2Isabelle
  imports Main "HOL-Library.Sublist"
begin

unbundle bit_operations_syntax

section \<open>JavaScript values\<close>

text \<open>
  The service handles plain JSON data: request bodies, option objects, model output and
  result envelopes. A string is a list of code units; the model covers the code units
  below 256, one \<^typ>\<open>char\<close> each. An object is the list of its own properties in
  enumeration order, which for keys that are not array indices is insertion order; keys
  are distinct. A number that is an integer is \<open>JNum\<close>; any other number (a fraction,
  \<open>NaN\<close>, an infinity) is \<open>JReal\<close> of the text that \<open>Number.prototype.toString\<close>
  prints for it, which identifies it.
\<close>

datatype jsval =
    JUndefined
  | JNull
  | JBool bool
  | JNum int
  | JReal string
  | JStr string
  | JArr "jsval list"
  | JObj "(string \<times> jsval) list"

datatype error =
    Error string
  | TypeError string
  | SyntaxError string

fun message :: "error \<Rightarrow> string" where
  "message (Error m) = m"
| "message (TypeError m) = m"
| "message (SyntaxError m) = m"

text \<open>Truthiness, as \<open>!x\<close>, \<open>if (x)\<close> and \<open>x || y\<close> test it.\<close>

fun truthy :: "jsval \<Rightarrow> bool" where
  "truthy JUndefined = False"
| "truthy JNull = False"
| "truthy (JBool b) = b"
| "truthy (JNum n) = (n \<noteq> 0)"
| "truthy (JReal s) = (s \<noteq> ''NaN'')"
| "truthy (JStr s) = (s \<noteq> [])"
| "truthy (JArr xs) = True"
| "truthy (JObj kvs) = True"

definition js_or :: "jsval \<Rightarrow> jsval \<Rightarrow> jsval" where
  "js_or a b = (if truthy a then a else b)"

fun nullish :: "jsval \<Rightarrow> bool" where
  "nullish JUndefined = True"
| "nullish JNull = True"
| "nullish _ = False"

text \<open>
  \<open>v.name\<close> on a value that is neither \<open>null\<close> nor \<open>undefined\<close>, for the property names
  the service reads (\<open>type\<close>, \<open>content\<close>, \<open>options\<close>, \<open>requests\<close>, \<open>length\<close> and the option
  names); inherited properties other than \<open>length\<close> are not modelled.
\<close>

fun property :: "jsval \<Rightarrow> string \<Rightarrow> jsval" where
  "property (JObj kvs) name = (case map_of kvs name of None \<Rightarrow> JUndefined | Some v \<Rightarrow> v)"
| "property (JStr s) name = (if name = ''length'' then JNum (int (length s)) else JUndefined)"
| "property (JArr xs) name = (if name = ''length'' then JNum (int (length xs)) else JUndefined)"
| "property _ name = JUndefined"

definition cannot_read :: "jsval \<Rightarrow> string \<Rightarrow> error" where
  "cannot_read v name =
     TypeError (''Cannot read properties of '' @ (if v = JNull then ''null'' else ''undefined'')
                @ '' (reading '' @ [CHR 0x27] @ name @ [CHR 0x27] @ '')'')"


text \<open>\<open>v.name\<close>: a \<open>TypeError\<close> on \<open>null\<close> and \<open>undefined\<close>.\<close>

definition get_prop :: "jsval \<Rightarrow> string \<Rightarrow> error + jsval" where
  "get_prop v name = (if nullish v then Inl (cannot_read v name) else Inr (property v name))"

text \<open>\<open>v?.name\<close>\<close>

definition opt_prop :: "jsval \<Rightarrow> string \<Rightarrow> jsval" where
  "opt_prop v name = (if nullish v then JUndefined else property v name)"

subsection \<open>Number and value to string\<close>

definition digit_char :: "nat \<Rightarrow> char" where
  "digit_char n = ''0123456789'' ! n"

fun show_nat :: "nat \<Rightarrow> string" where
  "show_nat n = (if n < 10 then [digit_char n] else show_nat (n div 10) @ [digit_char (n mod 10)])"

declare show_nat.simps [simp del]

definition show_int :: "int \<Rightarrow> string" where
  "show_int i = (if i < 0 then ''-'' @ show_nat (nat (- i)) else show_nat (nat i))"

fun join :: "string \<Rightarrow> string list \<Rightarrow> string" where
  "join sep [] = []"
| "join sep [x] = x"
| "join sep (x # y # ys) = x @ sep @ join sep (y # ys)"

text \<open>
  \<open>String(v)\<close>, which a template literal applies to each interpolated value. An integer
  prints in decimal (below \<open>10^21\<close> in absolute value); an array joins its elements with
  commas, \<open>null\<close> and \<open>undefined\<close> elements printing as nothing; a plain object prints as
  \<open>[object Object]\<close>.
\<close>

fun to_string :: "jsval \<Rightarrow> string" where
  "to_string JUndefined = ''undefined''"
| "to_string JNull = ''null''"
| "to_string (JBool b) = (if b then ''true'' else ''false'')"
| "to_string (JNum n) = show_int n"
| "to_string (JReal s) = s"
| "to_string (JStr s) = s"
| "to_string (JArr xs) = join '','' (map (\<lambda>x. if nullish x then [] else to_string x) xs)"
| "to_string (JObj kvs) = ''[object Object]''"

subsection \<open>JSON.stringify\<close>

definition hex_digit :: "nat \<Rightarrow> char" where
  "hex_digit n = ''0123456789abcdef'' ! n"

text \<open>
  \<open>QuoteJSONString\<close>: the quote and the backslash are escaped, the control characters
  print as their short escape or as \<open>\u00XX\<close>.
\<close>

definition escape_char :: "char \<Rightarrow> string" where
  "escape_char c =
     (if c = CHR 0x22 then [CHR 0x5C, CHR 0x22]
      else if c = CHR 0x5C then [CHR 0x5C, CHR 0x5C]
      else if c = CHR 0x08 then [CHR 0x5C, CHR ''b'']
      else if c = CHR 0x0C then [CHR 0x5C, CHR ''f'']
      else if c = CHR 0x0A then [CHR 0x5C, CHR ''n'']
      else if c = CHR 0x0D then [CHR 0x5C, CHR ''r'']
      else if c = CHR 0x09 then [CHR 0x5C, CHR ''t'']
      else if (of_char c :: nat) < 32
        then [CHR 0x5C, CHR ''u'', CHR ''0'', CHR ''0'',
              hex_digit (of_char c div 16), hex_digit (of_char c mod 16)]
      else [c])"

definition quote :: "string \<Rightarrow> string" where
  "quote s = [CHR 0x22] @ concat (map escape_char s) @ [CHR 0x22]"

text \<open>
  The serialisation of a value inside a document: a property whose value is \<open>undefined\<close>
  is left out, an \<open>undefined\<close> array element prints as \<open>null\<close>, and so do \<open>NaN\<close> and the
  infinities. Properties are printed in the object's own order.
\<close>

fun ser :: "jsval \<Rightarrow> string" where
  "ser JUndefined = ''null''"
| "ser JNull = ''null''"
| "ser (JBool b) = (if b then ''true'' else ''false'')"
| "ser (JNum n) = show_int n"
| "ser (JReal s) = (if s = ''NaN'' \<or> s = ''Infinity'' \<or> s = ''-Infinity'' then ''null'' else s)"
| "ser (JStr s) = quote s"
| "ser (JArr xs) = ''['' @ join '','' (map ser xs) @ '']''"
| "ser (JObj kvs) =
     ''{'' @ join '','' (map (\<lambda>(k, v). quote k @ '':'' @ ser v)
                            (filter (\<lambda>(k, v). v \<noteq> JUndefined) kvs)) @ ''}''"

text \<open>\<open>JSON.stringify(v)\<close>: \<open>undefined\<close> (here \<open>None\<close>) for \<open>undefined\<close>, a string otherwise.\<close>

definition JSON_stringify :: "jsval \<Rightarrow> string option" where
  "JSON_stringify v = (if v = JUndefined then None else Some (ser v))"

section \<open>The cache key\<close>

subsection \<open>UTF-8 and MD5\<close>

text \<open>
  \<open>createHash("md5").update(text).digest("hex")\<close> hashes the UTF-8 encoding of the text
  and prints the sixteen bytes of the digest as thirty-two hexadecimal digits. A code
  unit below 128 is one byte, one from 128 to 255 is two.
\<close>

definition utf8_char :: "char \<Rightarrow> nat list" where
  "utf8_char c =
     (let n = (of_char c :: nat) in if n < 128 then [n] else [192 + n div 64, 128 + n mod 64])"

definition utf8 :: "string \<Rightarrow> nat list" where
  "utf8 s = concat (map utf8_char s)"

text \<open>
  MD5 (RFC 1321) on 32-bit words kept as naturals below \<open>2^32\<close>, the wrap-around written
  out. The message is padded with the byte 128, zero bytes up to 56 modulo 64 and the bit
  length as eight little-endian bytes; each block of 64 bytes is sixteen little-endian
  words and goes through 64 steps.
\<close>

type_synonym u32 = nat

definition add32 :: "u32 \<Rightarrow> u32 \<Rightarrow> u32" where
  "add32 a b = (a + b) mod 2 ^ 32"

definition not32 :: "u32 \<Rightarrow> u32" where
  "not32 a = 4294967295 - a"

definition rotl32 :: "nat \<Rightarrow> u32 \<Rightarrow> u32" where
  "rotl32 s x = (x * 2 ^ s) mod 2 ^ 32 + x div 2 ^ (32 - s)"

definition md5_shifts :: "nat list" where
  "md5_shifts =
    [7, 12, 17, 22, 7, 12, 17, 22, 7, 12, 17, 22, 7, 12, 17, 22,
     5, 9, 14, 20, 5, 9, 14, 20, 5, 9, 14, 20, 5, 9, 14, 20,
     4, 11, 16, 23, 4, 11, 16, 23, 4, 11, 16, 23, 4, 11, 16, 23,
     6, 10, 15, 21, 6, 10, 15, 21, 6, 10, 15, 21, 6, 10, 15, 21]"

definition md5_K :: "u32 list" where
  "md5_K =
    [0xd76aa478, 0xe8c7b756, 0x242070db, 0xc1bdceee,
     0xf57c0faf, 0x4787c62a, 0xa8304613, 0xfd469501,
     0x698098d8, 0x8b44f7af, 0xffff5bb1, 0x895cd7be,
     0x6b901122, 0xfd987193, 0xa679438e, 0x49b40821,
     0xf61e2562, 0xc040b340, 0x265e5a51, 0xe9b6c7aa,
     0xd62f105d, 0x02441453, 0xd8a1e681, 0xe7d3fbc8,
     0x21e1cde6, 0xc33707d6, 0xf4d50d87, 0x455a14ed,
     0xa9e3e905, 0xfcefa3f8, 0x676f02d9, 0x8d2a4c8a,
     0xfffa3942, 0x8771f681, 0x6d9d6122, 0xfde5380c,
     0xa4beea44, 0x4bdecfa9, 0xf6bb4b60, 0xbebfbc70,
     0x289b7ec6, 0xeaa127fa, 0xd4ef3085, 0x04881d05,
     0xd9d4d039, 0xe6db99e5, 0x1fa27cf8, 0xc4ac5665,
     0xf4292244, 0x432aff97, 0xab9423a7, 0xfc93a039,
     0x655b59c3, 0x8f0ccc92, 0xffeff47d, 0x85845dd1,
     0x6fa87e4f, 0xfe2ce6e0, 0xa3014314, 0x4e0811a1,
     0xf7537e82, 0xbd3af235, 0x2ad7d2bb, 0xeb86d391]"

type_synonym md5_state = "u32 \<times> u32 \<times> u32 \<times> u32"

text \<open>The mixing function and the message word of step \<open>i\<close>.\<close>

definition md5_F :: "nat \<Rightarrow> u32 \<Rightarrow> u32 \<Rightarrow> u32 \<Rightarrow> u32" where
  "md5_F i B C D =
     (if i < 16 then (B AND C) OR (not32 B AND D)
      else if i < 32 then (D AND B) OR (not32 D AND C)
      else if i < 48 then B XOR C XOR D
      else C XOR (B OR not32 D))"

definition md5_g :: "nat \<Rightarrow> nat" where
  "md5_g i =
     (if i < 16 then i
      else if i < 32 then (5 * i + 1) mod 16
      else if i < 48 then (3 * i + 5) mod 16
      else (7 * i) mod 16)"

text \<open>The steps from \<open>i\<close> on, one for each remaining pair of constant and rotation.\<close>

fun md5_steps :: "u32 list \<Rightarrow> nat \<Rightarrow> (u32 \<times> nat) list \<Rightarrow> md5_state \<Rightarrow> md5_state" where
  "md5_steps M i [] st = st"
| "md5_steps M i ((k, s) # ks) (A, B, C, D) =
     md5_steps M (i + 1) ks
       (D, add32 B (rotl32 s (add32 (add32 (add32 (md5_F i B C D) A) k) (M ! md5_g i))), B, C)"

fun le_words :: "nat list \<Rightarrow> u32 list" where
  "le_words (b0 # b1 # b2 # b3 # bs) =
     (b0 + 256 * b1 + 65536 * b2 + 16777216 * b3) # le_words bs"
| "le_words _ = []"

fun md5_block :: "md5_state \<Rightarrow> nat list \<Rightarrow> md5_state" where
  "md5_block (a0, b0, c0, d0) blk =
     (case md5_steps (le_words blk) 0 (zip md5_K md5_shifts) (a0, b0, c0, d0) of
        (A, B, C, D) \<Rightarrow> (add32 a0 A, add32 b0 B, add32 c0 C, add32 d0 D))"

fun chunks :: "nat \<Rightarrow> 'a list \<Rightarrow> 'a list list" where
  "chunks n [] = []"
| "chunks n xs = (if n = 0 then [xs] else take n xs # chunks n (drop n xs))"

definition le_bytes4 :: "nat \<Rightarrow> nat list" where
  "le_bytes4 n = [n mod 256, n div 256 mod 256, n div 65536 mod 256, n div 16777216 mod 256]"

definition le_bytes8 :: "nat \<Rightarrow> nat list" where
  "le_bytes8 n = le_bytes4 (n mod 4294967296) @ le_bytes4 (n div 4294967296)"

definition md5_pad :: "nat list \<Rightarrow> nat list" where
  "md5_pad msg =
     msg @ [128] @ replicate ((119 - length msg mod 64) mod 64) 0
         @ le_bytes8 (8 * length msg mod 2 ^ 64)"

definition md5 :: "nat list \<Rightarrow> nat list" where
  "md5 msg =
     (case foldl md5_block (0x67452301, 0xefcdab89, 0x98badcfe, 0x10325476)
             (chunks 64 (md5_pad msg)) of
        (a, b, c, d) \<Rightarrow> le_bytes4 a @ le_bytes4 b @ le_bytes4 c @ le_bytes4 d)"

definition hex :: "nat list \<Rightarrow> string" where
  "hex bs = concat (map (\<lambda>b. [hex_digit (b div 16), hex_digit (b mod 16)]) bs)"

subsection \<open>generateCacheKey\<close>

text \<open>
  \<open>JSON.stringify(request)\<close> is hashed and the key is \<open>ai:${request.type}:${hash}\<close>.
  \<open>update\<close> throws a \<open>TypeError\<close> when it is handed \<open>undefined\<close>, and reading
  \<open>request.type\<close> throws one when the request is \<open>null\<close>.
\<close>

definition generateCacheKey :: "jsval \<Rightarrow> error + string" where
  "generateCacheKey request =
     (case JSON_stringify request of
        None \<Rightarrow> Inl (TypeError ''The data argument must be of type string. Received undefined'')
      | Some text \<Rightarrow>
          (let hash = hex (md5 (utf8 text)) in
           case get_prop request ''type'' of
             Inl e \<Rightarrow> Inl e
           | Inr t \<Rightarrow> Inr (''ai:'' @ to_string t @ '':'' @ hash)))"

section \<open>Fence stripping (formatResponse)\<close>

text \<open>
  The characters \<open>String.prototype.trim\<close> removes and the regular expression class \<open>\s\<close>
  matches: white space and line terminators, here those below 256.
\<close>

definition is_space :: "char \<Rightarrow> bool" where
  "is_space c = (c \<in> {CHR 0x09, CHR 0x0A, CHR 0x0B, CHR 0x0C, CHR 0x0D, CHR 0x20, CHR 0xA0})"

definition trim :: "string \<Rightarrow> string" where
  "trim s = rev (dropWhile is_space (rev (dropWhile is_space s)))"

definition fence_open :: string where
  "fence_open = ''```json'' @ [CHR 0x0A]"

definition fence_close :: string where
  "fence_close = ''```''"

text \<open>\<open>.replace(/^```json\n/, '')\<close>: the marker is removed when the text starts with it.\<close>

definition strip_fence_open :: "string \<Rightarrow> string" where
  "strip_fence_open s = (if prefix fence_open s then drop (length fence_open) s else s)"

text \<open>
  \<open>.replace(/```$/, '')\<close>: without the \<open>m\<close> flag \<open>$\<close> matches at the very end only, so
  the marker is removed when the text ends with it.
\<close>

definition strip_fence_close :: "string \<Rightarrow> string" where
  "strip_fence_close s = (if suffix fence_close s then take (length s - length fence_close) s else s)"

definition invalid_result_format :: jsval where
  "invalid_result_format = JObj [(''error'', JStr ''Invalid result format'')]"

text \<open>
  \<open>JSON.parse\<close> is a parameter: \<open>None\<close> stands for the \<open>SyntaxError\<close> it throws. The
  message written to the console in that case is not modelled.
\<close>

definition formatResponse :: "(string \<Rightarrow> jsval option) \<Rightarrow> string \<Rightarrow> jsval" where
  "formatResponse parse rawResult =
     (let cleaned = trim (strip_fence_close (strip_fence_open rawResult))
      in case parse cleaned of
           Some parsedResult \<Rightarrow> parsedResult
         | None \<Rightarrow> invalid_result_format)"

section \<open>The environment and the state\<close>

text \<open>
  What the service does not decide is the environment of a run: whether the cache client
  exists and is connected, whether the backend answers or rejects every command with an
  error (\<open>fault\<close>), the built-in \<open>JSON.parse\<close> and the division operator, the model
  capability (\<open>reply e n r\<close> is the outcome of the \<open>n\<close>-th invocation, made with request
  \<open>r\<close>), whether importing the model client fails, the clock (\<open>clock e n\<close> is the value of
  the \<open>n\<close>-th \<open>Date.now()\<close>) and, for a batch, when each request finishes
  (\<open>finish e j\<close> is the rank at which the request with index \<open>j\<close> completes).
\<close>

record env =
  client :: bool
  isConnected :: bool
  fault :: "error option"
  JSON_parse :: "string \<Rightarrow> jsval option"
  js_div :: "jsval \<Rightarrow> jsval \<Rightarrow> jsval"
  reply :: "nat \<Rightarrow> jsval \<Rightarrow> error + string"
  import_error :: "error option"
  clock :: "nat \<Rightarrow> int"
  finish :: "nat \<Rightarrow> nat"

text \<open>
  The trace lists what a run does to the outside: commands sent to the cache backend,
  invocations of the model capability, log entries and pauses. \<open>Settled j r\<close> is
  bookkeeping of a batch run: the promise of the request with index \<open>j\<close> settled with \<open>r\<close>.
\<close>

datatype event =
    RedisGet string
  | RedisSet string string nat
  | ModelCall jsval
  | Log string string jsval
  | Delay nat
  | Settled nat "error + jsval"

text \<open>
  The state holds the entries of the backend that have not expired (expiry itself is not
  modelled: a run is short against the time to live), whether the model client is
  initialised, how many times the model was invoked and the clock was read, and the trace.
\<close>

record state =
  store :: "string \<Rightarrow> string option"
  initialized :: bool
  invocations :: nat
  reads :: nat
  trace :: "event list"

definition emit :: "event \<Rightarrow> state \<Rightarrow> state" where
  "emit ev s = s\<lparr>trace := trace s @ [ev]\<rparr>"

definition logger :: "string \<Rightarrow> string \<Rightarrow> jsval \<Rightarrow> state \<Rightarrow> state" where
  "logger level msg meta s = emit (Log level msg meta) s"

definition date_now :: "env \<Rightarrow> state \<Rightarrow> int \<times> state" where
  "date_now e s = (clock e (reads s), s\<lparr>reads := reads s + 1\<rparr>)"

section \<open>The cache store (CacheService)\<close>

text \<open>
  The backend client: a command reaches the backend and is answered, or rejects with the
  fault. \<open>GET\<close> answers the stored text or \<open>null\<close>; \<open>SET\<close> with \<open>EX\<close> stores and answers \<open>OK\<close>.
\<close>

definition redis_get :: "env \<Rightarrow> state \<Rightarrow> string \<Rightarrow> (error + string option) \<times> state" where
  "redis_get e s key =
     (let s1 = emit (RedisGet key) s
      in case fault e of
           Some err \<Rightarrow> (Inl err, s1)
         | None \<Rightarrow> (Inr (store s key), s1))"

definition redis_set ::
    "env \<Rightarrow> state \<Rightarrow> string \<Rightarrow> string \<Rightarrow> nat \<Rightarrow> (error + string option) \<times> state" where
  "redis_set e s key val ttl =
     (let s1 = emit (RedisSet key val ttl) s
      in case fault e of
           Some err \<Rightarrow> (Inl err, s1)
         | None \<Rightarrow>
             if ttl = 0 then (Inl (Error ''ERR invalid expire time in set''), s1)
             else (Inr (Some ''OK''), s1\<lparr>store := (store s1)(key \<mapsto> val)\<rparr>))"

text \<open>
  \<open>get\<close> and \<open>set\<close>: the body of each is a \<open>try\<close> whose \<open>catch\<close> logs and returns \<open>null\<close> or
  \<open>false\<close>. The result is a sum so that a throw would be a value \<open>Inl\<close>.
\<close>

definition cache_get :: "env \<Rightarrow> state \<Rightarrow> string \<Rightarrow> (error + string option) \<times> state" where
  "cache_get e s key =
     (if \<not> client e \<or> \<not> isConnected e then (Inr None, s)
      else case redis_get e s key of
             (Inr v, s1) \<Rightarrow> (Inr v, s1)
           | (Inl err, s1) \<Rightarrow>
               (Inr None,
                logger ''error'' ''Error getting value from cache''
                  (JObj [(''key'', JStr key), (''error'', JStr (message err))]) s1))"

definition defaultTTL :: nat where
  "defaultTTL = 3600"

definition cache_set ::
    "env \<Rightarrow> state \<Rightarrow> string \<Rightarrow> string \<Rightarrow> nat \<Rightarrow> (error + bool) \<times> state" where
  "cache_set e s key val ttl =
     (if \<not> client e \<or> \<not> isConnected e then (Inr False, s)
      else case redis_set e s key val ttl of
             (Inr result, s1) \<Rightarrow> (Inr (result = Some ''OK''), s1)
           | (Inl err, s1) \<Rightarrow>
               (Inr False,
                logger ''error'' ''Error setting value in cache''
                  (JObj [(''key'', JStr key), (''error'', JStr (message err))]) s1))"

section \<open>The processing dispatcher (AIService)\<close>

definition nl :: string where
  "nl = [CHR 0x0A]"

definition cacheTimeout :: nat where
  "cacheTimeout = 3600"

text \<open>
  \<open>init\<close> as \<open>ensureInitialized\<close> runs it: the import succeeds and the client is set, or it
  fails, the failure is logged and the client stays unset.
\<close>

definition init :: "env \<Rightarrow> state \<Rightarrow> state" where
  "init e s =
     (case import_error e of
        None \<Rightarrow>
          logger ''info'' ''Google GenAI client initialized successfully'' JUndefined
            (s\<lparr>initialized := True\<rparr>)
      | Some err \<Rightarrow>
          logger ''error'' ''Failed to initialize Google GenAI client''
            (JObj [(''error'', JStr (message err))]) (s\<lparr>initialized := False\<rparr>))"

definition ensureInitialized :: "env \<Rightarrow> state \<Rightarrow> (error + unit) \<times> state" where
  "ensureInitialized e s =
     (if \<not> initialized s then
        (let s1 = init e s
         in if \<not> initialized s1 then (Inl (Error ''Failed to initialize Google GenAI client''), s1)
            else (Inr (), s1))
      else (Inr (), s))"

text \<open>
  \<open>this.model.generateContent(request)\<close> and the \<open>text\<close> of its response. While the client
  is not initialised \<open>this.model\<close> is \<open>undefined\<close> and the call is a \<open>TypeError\<close>.
\<close>

definition invoke_model :: "env \<Rightarrow> state \<Rightarrow> jsval \<Rightarrow> (error + string) \<times> state" where
  "invoke_model e s request =
     (if \<not> initialized s
      then (Inl (TypeError (''Cannot read properties of undefined (reading ''
                            @ [CHR 0x27] @ ''generateContent'' @ [CHR 0x27] @ '')'')), s)
      else (reply e (invocations s) request,
            emit (ModelCall request) (s\<lparr>invocations := invocations s + 1\<rparr>)))"

definition flash :: jsval where
  "flash = JStr ''gemini-2.0-flash''"

definition envelope :: "string \<Rightarrow> jsval \<Rightarrow> int \<Rightarrow> jsval" where
  "envelope ty result now =
     JObj [(''type'', JStr ty), (''result'', result), (''processingTime'', JNum now)]"

subsection \<open>summarizeText\<close>

definition summarize_prompt :: "jsval \<Rightarrow> jsval \<Rightarrow> jsval \<Rightarrow> string" where
  "summarize_prompt style maxLength content =
     ''You are an expert content summarizer. Create '' @ to_string style
     @ '' summaries that capture the key points and main ideas. Keep summaries under ''
     @ to_string maxLength @ '' words.'' @ nl @ nl
     @ ''     Content to summarize:'' @ nl
     @ ''     '' @ to_string content"

text \<open>The parameter \<open>options = {}\<close> takes its default when the argument is \<open>undefined\<close>.\<close>

definition summarizeText :: "env \<Rightarrow> state \<Rightarrow> jsval \<Rightarrow> jsval \<Rightarrow> (error + jsval) \<times> state" where
  "summarizeText e s content options0 =
     (let options = (if options0 = JUndefined then JObj [] else options0)
      in case get_prop options ''maxLength'' of
           Inl err \<Rightarrow> (Inl err, s)
         | Inr ml \<Rightarrow>
             (let maxLength = js_or ml (JNum 150);
                  style = js_or (property options ''style'') (JStr ''concise'');
                  prompt = summarize_prompt style maxLength content
              in case invoke_model e s (JObj [(''model'', flash), (''contents'', JStr prompt)]) of
                   (Inl err, s1) \<Rightarrow> (Inl err, s1)
                 | (Inr summary, s1) \<Rightarrow>
                     (case get_prop content ''length'' of
                        Inl err \<Rightarrow> (Inl err, s1)
                      | Inr originalLength \<Rightarrow>
                          (let summaryLength = JNum (int (length summary));
                               (now, s2) = date_now e s1
                           in (Inr (envelope ''summarize''
                                      (JObj [(''summary'', JStr summary),
                                             (''originalLength'', originalLength),
                                             (''summaryLength'', summaryLength),
                                             (''compressionRatio'',
                                                js_div e originalLength summaryLength)])
                                      now),
                               s2)))))"

subsection \<open>analyzeSentiment\<close>

definition sentiment_prompt :: "jsval \<Rightarrow> string" where
  "sentiment_prompt content =
     ''You are a sentiment analysis expert. Analyze the sentiment of the given text and provide:'' @ nl
     @ ''  1. Overall sentiment (positive, negative, neutral)'' @ nl
     @ ''  2. Confidence score (0-10)'' @ nl
     @ ''  3. Key emotional indicators'' @ nl
     @ ''  4. Brief explanation'' @ nl @ nl
     @ ''  Respond in JSON format only'' @ nl @ nl
     @ ''  Text to analyze:'' @ nl
     @ ''  '' @ to_string content @ ''.''"

definition analyzeSentiment :: "env \<Rightarrow> state \<Rightarrow> jsval \<Rightarrow> (error + jsval) \<times> state" where
  "analyzeSentiment e s content =
     (case ensureInitialized e s of
        (Inl err, s1) \<Rightarrow> (Inl err, s1)
      | (Inr _, s1) \<Rightarrow>
          (let prompt = sentiment_prompt content
           in case invoke_model e s1 (JObj [(''model'', flash), (''contents'', JStr prompt)]) of
                (Inl err, s2) \<Rightarrow>
                  (Inl err,
                   logger ''error'' ''Sentiment analysis failed''
                     (JObj [(''error'', JStr (message err))]) s2)
              | (Inr text, s2) \<Rightarrow>
                  (let result = formatResponse (JSON_parse e) text;
                       (now, s3) = date_now e s2
                   in (Inr (envelope ''analyze-sentiment'' result now), s3))))"

subsection \<open>extractKeywords\<close>

definition keywords_prompt :: "jsval \<Rightarrow> string" where
  "keywords_prompt content =
     ''Extract the most important keywords and key phrases from the given text. ''
     @ ''Return a JSON array of keywords with their relevance scores (0-10). ''
     @ ''Focus on nouns, important adjectives, and key concepts.'' @ nl
     @ ''    Text to analyze:'' @ nl
     @ ''    '' @ to_string content"

text \<open>
  \<open>keywords\<close> is what \<open>JSON.parse(response)\<close> returns, or the empty array when it throws;
  \<open>JSON.parse\<close> converts its argument, the value \<open>formatResponse\<close> returned, to a string
  first. The result carries \<open>response\<close>.
\<close>

definition extractKeywords :: "env \<Rightarrow> state \<Rightarrow> jsval \<Rightarrow> (error + jsval) \<times> state" where
  "extractKeywords e s content =
     (let prompt = keywords_prompt content
      in case invoke_model e s (JObj [(''model'', flash), (''contents'', JStr prompt)]) of
           (Inl err, s1) \<Rightarrow> (Inl err, s1)
         | (Inr text, s1) \<Rightarrow>
             (let response = formatResponse (JSON_parse e) text;
                  keywords = (case JSON_parse e (to_string response) of
                                Some parsed \<Rightarrow> parsed
                              | None \<Rightarrow> JArr []);
                  (now, s2) = date_now e s1
              in (Inr (envelope ''extract-keywords'' (JObj [(''response'', response)]) now), s2)))"

subsection \<open>generateContent\<close>

definition content_prompt :: "jsval \<Rightarrow> jsval \<Rightarrow> string" where
  "content_prompt style prompt =
     ''You are a professional content creator. Generate high-quality, '' @ to_string style
     @ '' content based on the user'' @ [CHR 0x27] @ ''s request. Ensure the content is engaging, ''
     @ ''well-structured, and appropriate for the intended audience.'' @ nl @ nl
     @ ''     User request:'' @ nl
     @ ''     '' @ to_string prompt"

text \<open>
  \<open>text.split(/\s+/).length\<close>: one more than the number of maximal runs of white space.
\<close>

fun space_runs :: "bool \<Rightarrow> string \<Rightarrow> nat" where
  "space_runs in_run [] = 0"
| "space_runs in_run (c # cs) =
     (if is_space c then (if in_run then 0 else 1) + space_runs True cs
      else space_runs False cs)"

definition split_count :: "string \<Rightarrow> nat" where
  "split_count text = 1 + space_runs False text"

definition generateContent :: "env \<Rightarrow> state \<Rightarrow> jsval \<Rightarrow> jsval \<Rightarrow> (error + jsval) \<times> state" where
  "generateContent e s prompt options =
     (let style = js_or (opt_prop options ''style'') (JStr ''professional'');
          systemPrompt = content_prompt style prompt;
          generationConfig =
            JObj [(''temperature'', js_or (opt_prop options ''temperature'') (JReal ''0.7'')),
                  (''maxOutputTokens'', js_or (opt_prop options ''maxTokens'') (JNum 1024))]
      in case invoke_model e s
                (JObj [(''model'', flash),
                       (''contents'',
                          JArr [JObj [(''role'', JStr ''user''),
                                      (''parts'', JArr [JObj [(''text'', JStr systemPrompt)]])]]),
                       (''generationConfig'', generationConfig)]) of
           (Inl err, s1) \<Rightarrow> (Inl err, s1)
         | (Inr generatedContent, s1) \<Rightarrow>
             (let (now, s2) = date_now e s1
              in (Inr (envelope ''generate-content''
                         (JObj [(''content'', JStr generatedContent),
                                (''wordCount'', JNum (int (split_count generatedContent)))])
                         now),
                  s2)))"

subsection \<open>translateText\<close>

definition preserve_instruction :: string where
  "preserve_instruction = ''Preserve the original formatting and structure.''"

definition translate_prompt :: "jsval \<Rightarrow> jsval \<Rightarrow> jsval \<Rightarrow> string" where
  "translate_prompt targetLanguage preserveFormatting content =
     ''You are a professional translator. Translate the given text to ''
     @ to_string targetLanguage @ ''. ''
     @ (if truthy preserveFormatting then preserve_instruction else [])
     @ '' Ensure accuracy and natural flow in the target language.'' @ nl @ nl
     @ ''    Text to translate:'' @ nl
     @ ''    '' @ to_string content"

definition translateText :: "env \<Rightarrow> state \<Rightarrow> jsval \<Rightarrow> jsval \<Rightarrow> (error + jsval) \<times> state" where
  "translateText e s content options =
     (let targetLanguage = js_or (opt_prop options ''targetLanguage'') (JStr ''Spanish'');
          preserveFormatting = js_or (opt_prop options ''preserveFormatting'') (JBool True);
          prompt = translate_prompt targetLanguage preserveFormatting content
      in case invoke_model e s (JObj [(''model'', flash), (''contents'', JStr prompt)]) of
           (Inl err, s1) \<Rightarrow> (Inl err, s1)
         | (Inr translatedText, s1) \<Rightarrow>
             (let (now, s2) = date_now e s1
              in (Inr (envelope ''translate''
                         (JObj [(''originalText'', content),
                                (''translatedText'', JStr translatedText),
                                (''sourceLanguage'', JStr ''auto-detected''),
                                (''targetLanguage'', targetLanguage)])
                         now),
                  s2)))"

subsection \<open>processContent\<close>

text \<open>The \<open>switch\<close> on \<open>request.type\<close>; it compares with \<open>===\<close>.\<close>

definition dispatch :: "env \<Rightarrow> state \<Rightarrow> jsval \<Rightarrow> (error + jsval) \<times> state" where
  "dispatch e s request =
     (let ty = property request ''type'';
          content = property request ''content'';
          options = property request ''options''
      in if ty = JStr ''summarize'' then summarizeText e s content options
         else if ty = JStr ''analyze-sentiment'' then analyzeSentiment e s content
         else if ty = JStr ''extract-keywords'' then extractKeywords e s content
         else if ty = JStr ''generate-content'' then generateContent e s content options
         else if ty = JStr ''translate'' then translateText e s content options
         else (Inl (Error (''Unsupported AI processing type: '' @ to_string ty)), s))"

text \<open>\<open>request.content.length\<close>, which every log entry of \<open>processContent\<close> evaluates.\<close>

definition content_length :: "jsval \<Rightarrow> error + jsval" where
  "content_length request = get_prop (property request ''content'') ''length''"

text \<open>The branch taken on a cache hit: the entry is logged, parsed and returned.\<close>

definition serve_cached :: "env \<Rightarrow> state \<Rightarrow> jsval \<Rightarrow> string \<Rightarrow> (error + jsval) \<times> state" where
  "serve_cached e s request cachedResult =
     (case content_length request of
        Inl err \<Rightarrow> (Inl err, s)
      | Inr len \<Rightarrow>
          (let s1 = logger ''info'' ''AI processing result served from cache''
                      (JObj [(''processingType'', property request ''type''),
                             (''contentLength'', len),
                             (''cacheHit'', JBool True)]) s
           in case JSON_parse e cachedResult of
                None \<Rightarrow> (Inl (SyntaxError ''Unexpected token in JSON''), s1)
              | Some v \<Rightarrow> (Inr v, s1)))"

text \<open>
  The branch taken on a miss: the result is computed, written to the cache for
  \<open>cacheTimeout\<close> seconds, logged and returned. Every transform returns an object, whose
  serialisation exists.
\<close>

definition compute_and_store ::
    "env \<Rightarrow> state \<Rightarrow> jsval \<Rightarrow> string \<Rightarrow> int \<Rightarrow> (error + jsval) \<times> state" where
  "compute_and_store e s request cacheKey startTime =
     (case dispatch e s request of
        (Inl err, s1) \<Rightarrow> (Inl err, s1)
      | (Inr result, s1) \<Rightarrow>
          (case (case JSON_stringify result of
                   None \<Rightarrow> (Inr False, s1)
                 | Some text \<Rightarrow> cache_set e s1 cacheKey text cacheTimeout) of
             (Inl err, s2) \<Rightarrow> (Inl err, s2)
           | (Inr stored, s2) \<Rightarrow>
               (let (now, s3) = date_now e s2;
                    processingTime = now - startTime
                in case content_length request of
                     Inl err \<Rightarrow> (Inl err, s3)
                   | Inr len \<Rightarrow>
                       (Inr result,
                        logger ''info'' ''AI processing completed''
                          (JObj [(''processingType'', property request ''type''),
                                 (''contentLength'', len),
                                 (''processingTime'', JNum processingTime),
                                 (''tokensUsed'', property result ''tokensUsed'')]) s3))))"

text \<open>The \<open>try\<close> block from the answer of the cache on: a non-empty text is a hit.\<close>

definition try_block ::
    "env \<Rightarrow> state \<Rightarrow> jsval \<Rightarrow> string \<Rightarrow> int \<Rightarrow> error + string option \<Rightarrow> (error + jsval) \<times> state" where
  "try_block e s request cacheKey startTime answer =
     (case answer of
        Inl err \<Rightarrow> (Inl err, s)
      | Inr None \<Rightarrow> compute_and_store e s request cacheKey startTime
      | Inr (Some cachedResult) \<Rightarrow>
          if cachedResult \<noteq> [] then serve_cached e s request cachedResult
          else compute_and_store e s request cacheKey startTime)"

text \<open>
  \<open>processContent\<close> is an \<open>async\<close> function: a call runs to its first \<open>await\<close>, the cache
  read, and goes on when the answer is there. \<open>processContent_begin\<close> is the first part
  (a failure to build the key rejects the promise at once, outside the \<open>try\<close>),
  \<open>processContent_resume\<close> the second, with the \<open>catch\<close> that logs and rethrows. A single
  call is one after the other; a batch window begins all its calls before any resumes.
\<close>

datatype pending =
    Rejected error
  | Awaiting jsval string int "error + string option"

definition processContent_begin :: "env \<Rightarrow> state \<Rightarrow> jsval \<Rightarrow> pending \<times> state" where
  "processContent_begin e s request =
     (let (startTime, s0) = date_now e s
      in case generateCacheKey request of
           Inl err \<Rightarrow> (Rejected err, s0)
         | Inr cacheKey \<Rightarrow>
             (case cache_get e s0 cacheKey of
                (answer, s1) \<Rightarrow> (Awaiting request cacheKey startTime answer, s1)))"

definition processContent_resume :: "env \<Rightarrow> state \<Rightarrow> pending \<Rightarrow> (error + jsval) \<times> state" where
  "processContent_resume e s p =
     (case p of
        Rejected err \<Rightarrow> (Inl err, s)
      | Awaiting request cacheKey startTime answer \<Rightarrow>
          (case try_block e s request cacheKey startTime answer of
             (Inr v, s1) \<Rightarrow> (Inr v, s1)
           | (Inl err, s1) \<Rightarrow>
               (case content_length request of
                  Inl err2 \<Rightarrow> (Inl err2, s1)
                | Inr len \<Rightarrow>
                    (Inl err,
                     logger ''error'' ''AI processing failed''
                       (JObj [(''error'', JStr (message err)),
                              (''processingType'', property request ''type''),
                              (''contentLength'', len)]) s1))))"

definition processContent :: "env \<Rightarrow> state \<Rightarrow> jsval \<Rightarrow> (error + jsval) \<times> state" where
  "processContent e s request =
     (case processContent_begin e s request of
        (p, s1) \<Rightarrow> processContent_resume e s1 p)"

subsection \<open>batchProcess\<close>









section \<open>The HTTP boundary (AIController)\<close>

record response =
  status :: nat
  payload :: jsval










section \<open>Vocabulary of the properties\<close>

text \<open>The cache is reachable: there is a client, it is connected, the backend answers.\<close>

definition reachable :: "env \<Rightarrow> bool" where
  "reachable e = (client e \<and> isConnected e \<and> fault e = None)"

text \<open>The values of \<open>type\<close> that the \<open>switch\<close> of \<open>processContent\<close> has a case for.\<close>

definition supported :: "jsval set" where
  "supported = {JStr ''summarize'', JStr ''analyze-sentiment'', JStr ''extract-keywords'',
                JStr ''generate-content'', JStr ''translate''}"

fun is_log :: "event \<Rightarrow> bool" where
  "is_log (Log l m d) = True"
| "is_log _ = False"

fun is_settled :: "event \<Rightarrow> bool" where
  "is_settled (Settled j r) = True"
| "is_settled _ = False"

text \<open>
  A step that leaves the store alone, invokes the model at most once and settles no
  promise: what a transform does.
\<close>

definition step :: "state \<Rightarrow> state \<Rightarrow> bool" where
  "step s s' =
     (store s' = store s \<and> invocations s \<le> invocations s' \<and> invocations s' \<le> invocations s + 1
      \<and> (\<exists>evs. trace s' = trace s @ evs \<and> (\<forall>ev \<in> set evs. \<not> is_settled ev)))"




text \<open>The commands sent to the cache backend.\<close>

fun is_command :: "event \<Rightarrow> bool" where
  "is_command (RedisGet key) = True"
| "is_command (RedisSet key entry ttl) = True"
| "is_command _ = False"

fun is_model_call :: "event \<Rightarrow> bool" where
  "is_model_call (ModelCall request) = True"
| "is_model_call _ = False"

text \<open>
  From \<open>s\<close> to \<open>s'\<close> at most \<open>g\<close> commands are sent to the cache backend and the model is
  invoked at most \<open>m\<close> times.
\<close>

definition spent :: "nat \<Rightarrow> nat \<Rightarrow> state \<Rightarrow> state \<Rightarrow> bool" where
  "spent g m s s' =
     (invocations s' \<le> invocations s + m
      \<and> (\<exists>evs. trace s' = trace s @ evs
            \<and> length (filter is_command evs) \<le> g
            \<and> length (filter is_model_call evs) \<le> m))"

text \<open>The events that lead from \<open>s\<close> to \<open>s'\<close> settle no promise.\<close>

definition unsettled :: "state \<Rightarrow> state \<Rightarrow> bool" where
  "unsettled s s' = (\<exists>evs. trace s' = trace s @ evs \<and> (\<forall>ev \<in> set evs. \<not> is_settled ev))"

text \<open>The entry that the \<open>catch\<close> of \<open>batchProcess\<close> logs for the window with index \<open>k\<close>.\<close>

definition batch_failed_entry :: "nat \<Rightarrow> error \<Rightarrow> event" where
  "batch_failed_entry k err =
     Log ''error'' ''Batch processing failed''
       (JObj [(''batchIndex'', JNum (int k)), (''error'', JStr (message err))])"

text \<open>The promises that settle in a trace: the index of the request and what it settled with.\<close>

definition settled_in :: "event list \<Rightarrow> (nat \<times> (error + jsval)) set" where
  "settled_in evs = {(j, r). Settled j r \<in> set evs}"

text \<open>The rejections of a trace, in the order in which they happen.\<close>

fun failures :: "event list \<Rightarrow> (nat \<times> error) list" where
  "failures [] = []"
| "failures (Settled j (Inl err) # evs) = (j, err) # failures evs"
| "failures (ev # evs) = failures evs"

text \<open>
  \<open>r\<close> is an outcome of \<open>processContent(request)\<close>: what the call settles with when it runs
  to its first \<open>await\<close> from some state and resumes from some state.
\<close>

definition outcome_of :: "env \<Rightarrow> jsval \<Rightarrow> error + jsval \<Rightarrow> bool" where
  "outcome_of e request r =
     (\<exists>s1 s2. r = fst (processContent_resume e s2 (fst (processContent_begin e s1 request))))"




section \<open>Example environments\<close>

subsection \<open>A JSON reader\<close>

text \<open>
  The examples need a \<open>JSON.parse\<close> to run with. \<open>read_json\<close> reads the documents made of
  objects, arrays, strings with the short escapes, integers and the three literals, and
  returns \<open>None\<close> on everything else; \<open>JSON.parse\<close> agrees with it on the documents it
  reads. The recursion is bounded by the length of the text.
\<close>

definition json_space :: "char \<Rightarrow> bool" where
  "json_space c = (c = CHR 0x20 \<or> c = CHR 0x09 \<or> c = CHR 0x0A \<or> c = CHR 0x0D)"

definition is_digit :: "char \<Rightarrow> bool" where
  "is_digit c = (48 \<le> (of_char c :: nat) \<and> (of_char c :: nat) \<le> 57)"

definition digit_val :: "char \<Rightarrow> nat" where
  "digit_val c = of_char c - 48"

fun read_string :: "string \<Rightarrow> (string \<times> string) option" where
  "read_string [] = None"
| "read_string (c # cs) =
     (if c = CHR 0x22 then Some ([], cs)
      else if c = CHR 0x5C then
        (case cs of
           [] \<Rightarrow> None
         | d # ds \<Rightarrow>
             (case (if d = CHR 0x22 \<or> d = CHR 0x5C \<or> d = CHR ''/'' then Some d
                    else if d = CHR ''b'' then Some (CHR 0x08)
                    else if d = CHR ''f'' then Some (CHR 0x0C)
                    else if d = CHR ''n'' then Some (CHR 0x0A)
                    else if d = CHR ''r'' then Some (CHR 0x0D)
                    else if d = CHR ''t'' then Some (CHR 0x09)
                    else None) of
                None \<Rightarrow> None
              | Some x \<Rightarrow> map_option (\<lambda>(str, rest). (x # str, rest)) (read_string ds)))
      else if (of_char c :: nat) < 32 then None
      else map_option (\<lambda>(str, rest). (c # str, rest)) (read_string cs))"

fun read_digits :: "nat \<Rightarrow> string \<Rightarrow> nat \<times> string" where
  "read_digits acc [] = (acc, [])"
| "read_digits acc (c # cs) =
     (if is_digit c then read_digits (10 * acc + digit_val c) cs else (acc, c # cs))"

definition read_nat :: "string \<Rightarrow> (nat \<times> string) option" where
  "read_nat s =
     (case s of
        [] \<Rightarrow> None
      | c # cs \<Rightarrow>
          if \<not> is_digit c then None
          else if c = CHR ''0'' then Some (0, cs)
          else Some (read_digits 0 s))"

definition number_end :: "string \<Rightarrow> bool" where
  "number_end s = (case s of [] \<Rightarrow> True | c # _ \<Rightarrow> \<not> is_digit c \<and> c \<noteq> CHR ''.'' \<and> c \<noteq> CHR ''e'' \<and> c \<noteq> CHR ''E'')"

fun read_value :: "nat \<Rightarrow> string \<Rightarrow> (jsval \<times> string) option"
and read_elements :: "nat \<Rightarrow> string \<Rightarrow> (jsval list \<times> string) option"
and read_members :: "nat \<Rightarrow> string \<Rightarrow> ((string \<times> jsval) list \<times> string) option" where
  "read_value 0 s = None"
| "read_value (Suc n) s =
     (case dropWhile json_space s of
        [] \<Rightarrow> None
      | c # cs \<Rightarrow>
          if c = CHR ''{'' then
            (case dropWhile json_space cs of
               [] \<Rightarrow> None
             | d # ds \<Rightarrow>
                 if d = CHR ''}'' then Some (JObj [], ds)
                 else map_option (\<lambda>(kvs, rest). (JObj kvs, rest)) (read_members n (d # ds)))
          else if c = CHR ''['' then
            (case dropWhile json_space cs of
               [] \<Rightarrow> None
             | d # ds \<Rightarrow>
                 if d = CHR '']'' then Some (JArr [], ds)
                 else map_option (\<lambda>(vs, rest). (JArr vs, rest)) (read_elements n (d # ds)))
          else if c = CHR 0x22 then map_option (\<lambda>(str, rest). (JStr str, rest)) (read_string cs)
          else if prefix ''true'' (c # cs) then Some (JBool True, drop 4 (c # cs))
          else if prefix ''false'' (c # cs) then Some (JBool False, drop 5 (c # cs))
          else if prefix ''null'' (c # cs) then Some (JNull, drop 4 (c # cs))
          else if c = CHR ''-'' then
            (case read_nat cs of
               None \<Rightarrow> None
             | Some (m, rest) \<Rightarrow> if number_end rest then Some (JNum (- int m), rest) else None)
          else
            (case read_nat (c # cs) of
               None \<Rightarrow> None
             | Some (m, rest) \<Rightarrow> if number_end rest then Some (JNum (int m), rest) else None))"
| "read_elements 0 s = None"
| "read_elements (Suc n) s =
     (case read_value n s of
        None \<Rightarrow> None
      | Some (v, rest) \<Rightarrow>
          (case dropWhile json_space rest of
             [] \<Rightarrow> None
           | c # cs \<Rightarrow>
               if c = CHR '']'' then Some ([v], cs)
               else if c = CHR '','' then map_option (\<lambda>(vs, r). (v # vs, r)) (read_elements n cs)
               else None))"
| "read_members 0 s = None"
| "read_members (Suc n) s =
     (case dropWhile json_space s of
        [] \<Rightarrow> None
      | q # qs \<Rightarrow>
          if q \<noteq> CHR 0x22 then None
          else
            (case read_string qs of
               None \<Rightarrow> None
             | Some (k, rest) \<Rightarrow>
                 (case dropWhile json_space rest of
                    [] \<Rightarrow> None
                  | c # cs \<Rightarrow>
                      if c \<noteq> CHR '':'' then None
                      else
                        (case read_value n cs of
                           None \<Rightarrow> None
                         | Some (v, rest2) \<Rightarrow>
                             (case dropWhile json_space rest2 of
                                [] \<Rightarrow> None
                              | d # ds \<Rightarrow>
                                  if d = CHR ''}'' then Some ([(k, v)], ds)
                                  else if d = CHR '','' then
                                    map_option (\<lambda>(kvs, r). ((k, v) # kvs, r)) (read_members n ds)
                                  else None)))))"

definition read_json :: "string \<Rightarrow> jsval option" where
  "read_json s =
     (case read_value (Suc (length s)) s of
        None \<Rightarrow> None
      | Some (v, rest) \<Rightarrow> if dropWhile json_space rest = [] then Some v else None)"

subsection \<open>Environments, states and requests\<close>

text \<open>
  Division as far as the examples need it: a quotient that is an integer, and division
  by zero.
\<close>

definition div_exact :: "jsval \<Rightarrow> jsval \<Rightarrow> jsval" where
  "div_exact a b =
     (case (a, b) of
        (JNum x, JNum y) \<Rightarrow>
          if y = 0 then JReal (if x = 0 then ''NaN'' else if 0 < x then ''Infinity'' else ''-Infinity'')
          else if y dvd x then JNum (x div y)
          else JReal ''NaN''
      | _ \<Rightarrow> JReal ''NaN'')"

text \<open>
  A model that answers every request with the same text, a clock that ticks once per
  reading, requests that finish in the order of their indices.
\<close>

definition env_with :: "bool \<Rightarrow> error option \<Rightarrow> (nat \<Rightarrow> jsval \<Rightarrow> error + string) \<Rightarrow> env" where
  "env_with connected flt model =
     \<lparr>client = True, isConnected = connected, fault = flt, JSON_parse = read_json,
      js_div = div_exact, reply = model, import_error = None,
      clock = (\<lambda>n. 1700000000000 + int n), finish = (\<lambda>j. j)\<rparr>"

definition state0 :: state where
  "state0 = \<lparr>store = Map.empty, initialized = True, invocations = 0, reads = 0, trace = []\<rparr>"

definition fixed_model :: "string \<Rightarrow> nat \<Rightarrow> jsval \<Rightarrow> error + string" where
  "fixed_model text n request = Inr text"

definition cache_down :: env where
  "cache_down = env_with False None (fixed_model ''Bonjour le monde !'')"

definition cache_up :: env where
  "cache_up = env_with True None (fixed_model ''Bonjour le monde !'')"

definition cache_faulty :: env where
  "cache_faulty = env_with True (Some (Error ''Connection is closed.'')) (fixed_model ''Bonjour le monde !'')"

definition state_with :: "string \<Rightarrow> string \<Rightarrow> state" where
  "state_with key text = state0\<lparr>store := [key \<mapsto> text]\<rparr>"


definition chatty_model :: env where
  "chatty_model = env_with False None (fixed_model ''Sorry, I found no keywords.'')"

definition translate_options :: "bool \<Rightarrow> jsval" where
  "translate_options keep =
     JObj [(''targetLanguage'', JStr ''French''), (''preserveFormatting'', JBool keep)]"

definition options_order_a :: jsval where
  "options_order_a =
     JObj [(''type'', JStr ''translate''), (''content'', JStr ''Hi''),
           (''options'', JObj [(''targetLanguage'', JStr ''French''),
                               (''preserveFormatting'', JBool True)])]"

definition options_order_b :: jsval where
  "options_order_b =
     JObj [(''type'', JStr ''translate''), (''content'', JStr ''Hi''),
           (''options'', JObj [(''preserveFormatting'', JBool True),
                               (''targetLanguage'', JStr ''French'')])]"

definition unknown_request :: jsval where
  "unknown_request = JObj [(''type'', JStr ''unknown''), (''content'', JStr ''x'')]"





definition hello_request :: jsval where
  "hello_request =
     JObj [(''type'', JStr ''translate''), (''content'', JStr ''Hello world!''),
           (''options'', JObj [(''targetLanguage'', JStr ''French'')])]"

definition hello_result :: "int \<Rightarrow> jsval" where
  "hello_result now =
     JObj [(''type'', JStr ''translate''),
           (''result'', JObj [(''originalText'', JStr ''Hello world!''),
                              (''translatedText'', JStr ''Bonjour le monde !''),
                              (''sourceLanguage'', JStr ''auto-detected''),
                              (''targetLanguage'', JStr ''French'')]),
           (''processingTime'', JNum now)]"

definition model_down :: env where
  "model_down = env_with True None (\<lambda>n request. Inl (Error ''503 Service Unavailable''))"







section \<open>Properties\<close>

subsection \<open>Evaluation\<close>

lemmas read_json_eval =
  read_json_def json_space_def read_nat_def is_digit_def digit_val_def number_end_def

lemmas env_eval = env_with_def cache_down_def cache_up_def cache_faulty_def chatty_model_def
  fixed_model_def state0_def state_with_def

subsection \<open>The cache store\<close>

lemma cache_get_result:
  "fst (cache_get e s key) =
     Inr (if client e \<and> isConnected e \<and> fault e = None then store s key else None)"
  by (auto simp: cache_get_def redis_get_def Let_def split: option.splits)

lemma cache_set_result:
  "fst (cache_set e s key v ttl) =
     Inr (client e \<and> isConnected e \<and> fault e = None \<and> ttl \<noteq> 0)"
  by (auto simp: cache_set_def redis_set_def Let_def split: option.splits)

text \<open>
  C7: for every key, \<open>get\<close> returns and never throws; what it returns is the stored text
  when the client is connected and the backend answers, and absent in every other case: a
  miss, no client, a disconnected client, a backend error. \<open>set\<close> returns a boolean and
  never throws; the boolean is false when the store is unavailable or the backend errors.
\<close>

theorem cache_store_never_throws:
  "fst (cache_get e s key) =
     Inr (if client e \<and> isConnected e \<and> fault e = None then store s key else None)
   \<and> fst (cache_set e s key v ttl) =
     Inr (client e \<and> isConnected e \<and> fault e = None \<and> ttl \<noteq> 0)"
  by (simp add: cache_get_result cache_set_result)

theorem cache_store_never_throws_witness:
  "fst (cache_get cache_up (state_with ''k'' ''v'') ''k'') = Inr (Some ''v'')
   \<and> fst (cache_get cache_up state0 ''k'') = Inr None
   \<and> fst (cache_get cache_down (state_with ''k'' ''v'') ''k'') = Inr None
   \<and> fst (cache_get cache_faulty (state_with ''k'' ''v'') ''k'') = Inr None
   \<and> fst (cache_set cache_up state0 ''k'' ''v'' 3600) = Inr True
   \<and> fst (cache_set cache_down state0 ''k'' ''v'' 3600) = Inr False
   \<and> fst (cache_set cache_faulty state0 ''k'' ''v'' 3600) = Inr False"
  using cache_store_never_throws [of cache_up "state_with ''k'' ''v''" "''k''" "''v''" 3600]
    cache_store_never_throws [of cache_up state0 "''k''" "''v''" 3600]
    cache_store_never_throws [of cache_down "state_with ''k'' ''v''" "''k''" "''v''" 3600]
    cache_store_never_throws [of cache_faulty "state_with ''k'' ''v''" "''k''" "''v''" 3600]
    cache_store_never_throws [of cache_down state0 "''k''" "''v''" 3600]
    cache_store_never_throws [of cache_faulty state0 "''k''" "''v''" 3600]
  by (simp add: env_eval)

subsection \<open>Fence stripping\<close>








subsection \<open>The prompts\<close>

lemma truthy_or_true: "truthy (js_or v (JBool True))"
  by (simp add: js_or_def)

text \<open>
  C10: for every content and every options value, the flag
  \<open>options?.preserveFormatting || true\<close> is truthy, so the prompt that \<open>translateText\<close>
  hands to the model contains the instruction to preserve the formatting, also when the
  option is set to false; and two options values with the same target language give the
  same run: the option has no effect.
\<close>

theorem translate_always_preserves:
  "truthy (js_or (opt_prop options ''preserveFormatting'') (JBool True))
   \<and> (initialized s \<longrightarrow>
        (\<exists>before after.
           trace (snd (translateText e s content options)) =
             trace s @ [ModelCall (JObj [(''model'', flash),
                                         (''contents'', JStr (before @ preserve_instruction @ after))])]))
   \<and> (opt_prop options ''targetLanguage'' = opt_prop options2 ''targetLanguage'' \<longrightarrow>
        translateText e s content options = translateText e s content options2)"
proof (intro conjI impI)
  show t: "truthy (js_or (opt_prop options ''preserveFormatting'') (JBool True))"
    by (rule truthy_or_true)
  {
    assume i: "initialized s"
    let ?lang = "js_or (opt_prop options ''targetLanguage'') (JStr ''Spanish'')"
    let ?flag = "js_or (opt_prop options ''preserveFormatting'') (JBool True)"
    have p: "translate_prompt ?lang ?flag content
               = (''You are a professional translator. Translate the given text to ''
                    @ to_string ?lang @ ''. '')
                 @ preserve_instruction
                 @ ('' Ensure accuracy and natural flow in the target language.'' @ nl @ nl
                    @ ''    Text to translate:'' @ nl @ ''    '' @ to_string content)"
      by (simp add: translate_prompt_def t)
    have "trace (snd (translateText e s content options)) =
            trace s @ [ModelCall (JObj [(''model'', flash),
                                        (''contents'', JStr (translate_prompt ?lang ?flag content))])]"
      using i
      by (simp add: translateText_def Let_def invoke_model_def date_now_def emit_def
            split: sum.splits prod.splits)
    then show "\<exists>before after.
           trace (snd (translateText e s content options)) =
             trace s @ [ModelCall (JObj [(''model'', flash),
                                         (''contents'', JStr (before @ preserve_instruction @ after))])]"
      unfolding p by blast
  }
  {
    assume "opt_prop options ''targetLanguage'' = opt_prop options2 ''targetLanguage''"
    then show "translateText e s content options = translateText e s content options2"
      by (simp add: translateText_def Let_def translate_prompt_def truthy_or_true)
  }
qed

theorem translate_always_preserves_witness:
  "truthy (js_or (opt_prop (translate_options False) ''preserveFormatting'') (JBool True))
   \<and> initialized state0
   \<and> trace (snd (translateText cache_down state0 (JStr ''Hello world!'') (translate_options False))) =
       [ModelCall (JObj [(''model'', JStr ''gemini-2.0-flash''),
          (''contents'',
             JStr (''You are a professional translator. Translate the given text to French. ''
                   @ ''Preserve the original formatting and structure.''
                   @ '' Ensure accuracy and natural flow in the target language.'' @ nl @ nl
                   @ ''    Text to translate:'' @ nl @ ''    Hello world!''))])]
   \<and> opt_prop (translate_options False) ''targetLanguage'' = opt_prop (translate_options True) ''targetLanguage''
   \<and> translateText cache_down state0 (JStr ''Hello world!'') (translate_options False) =
       translateText cache_down state0 (JStr ''Hello world!'') (translate_options True)"
  using translate_always_preserves [of "translate_options False" state0 cache_down
          "JStr ''Hello world!''" "translate_options True"]
  by (simp add: env_eval translate_options_def opt_prop_def js_or_def translateText_def
        translate_prompt_def preserve_instruction_def invoke_model_def emit_def date_now_def
        flash_def nl_def)

text \<open>
  C9 (what the code does): when the model's text, fences stripped, does not parse,
  \<open>extractKeywords\<close> returns an envelope whose payload is
  \<open>{response: {error: "Invalid result format"}}\<close>. The empty list that \<open>keywords\<close> falls
  back to is computed and dropped; the payload is not an empty keyword list.
\<close>

theorem extractKeywords_returns_response:
  "initialized s \<Longrightarrow>
   reply e (invocations s) (JObj [(''model'', flash), (''contents'', JStr (keywords_prompt content))])
     = Inr text \<Longrightarrow>
   JSON_parse e (trim (strip_fence_close (strip_fence_open text))) = None \<Longrightarrow>
   fst (extractKeywords e s content) =
     Inr (JObj [(''type'', JStr ''extract-keywords''),
                (''result'', JObj [(''response'', JObj [(''error'', JStr ''Invalid result format'')])]),
                (''processingTime'', JNum (clock e (reads s)))])"
  by (simp add: extractKeywords_def invoke_model_def Let_def date_now_def emit_def envelope_def
        formatResponse_def invalid_result_format_def)

lemma no_keywords_unparsed:
  "read_json (trim (strip_fence_close (strip_fence_open ''Sorry, I found no keywords.''))) = None"
  by (simp add: read_json_eval trim_def is_space_def strip_fence_open_def
        strip_fence_close_def fence_open_def fence_close_def suffix_to_prefix)

theorem extractKeywords_returns_response_witness:
  "initialized state0
   \<and> reply chatty_model (invocations state0)
        (JObj [(''model'', flash), (''contents'', JStr (keywords_prompt (JStr ''Redis is fast'')))])
       = Inr ''Sorry, I found no keywords.''
   \<and> JSON_parse chatty_model (trim (strip_fence_close (strip_fence_open ''Sorry, I found no keywords.''))) = None
   \<and> fst (extractKeywords chatty_model state0 (JStr ''Redis is fast'')) =
       Inr (JObj [(''type'', JStr ''extract-keywords''),
                  (''result'', JObj [(''response'', JObj [(''error'', JStr ''Invalid result format'')])]),
                  (''processingTime'', JNum 1700000000000)])"
proof -
  have i: "initialized state0"
    by (simp add: state0_def)
  have r: "reply chatty_model (invocations state0)
        (JObj [(''model'', flash), (''contents'', JStr (keywords_prompt (JStr ''Redis is fast'')))])
       = Inr ''Sorry, I found no keywords.''"
    by (simp add: env_eval)
  have p: "JSON_parse chatty_model (trim (strip_fence_close (strip_fence_open ''Sorry, I found no keywords.''))) = None"
    using no_keywords_unparsed by (simp add: env_eval)
  show ?thesis
    using i r p extractKeywords_returns_response [OF i r p] by (simp add: env_eval)
qed

subsection \<open>The cache key\<close>

lemma replicate_numeral: "replicate (numeral k) x = x # replicate (pred_numeral k) x"
  by (simp add: numeral_eq_Suc)

lemma md5_pad_length:
  "length msg = n \<Longrightarrow>
   md5_pad msg = msg @ [128] @ replicate ((119 - n mod 64) mod 64) 0 @ le_bytes8 (8 * n mod 2 ^ 64)"
  by (simp add: md5_pad_def)

lemmas md5_eval = md5_def replicate_numeral le_bytes8_def le_bytes4_def md5_K_def md5_shifts_def
  md5_F_def md5_g_def add32_def not32_def rotl32_def hex_def hex_digit_def

text \<open>The implementation agrees with the test suite of RFC 1321.\<close>

lemma md5_empty: "hex (md5 (utf8 [])) = ''d41d8cd98f00b204e9800998ecf8427e''"
  by (simp add: utf8_def md5_pad_length [where n = 0] md5_eval)

lemma md5_abc: "hex (md5 (utf8 ''abc'')) = ''900150983cd24fb0d6963f7d28e17f72''"
  by (simp add: utf8_def utf8_char_def md5_pad_length [where n = 3] md5_eval)

lemma md5_message_digest: "hex (md5 (utf8 ''message digest'')) = ''f96b697d7cb7938d525a2f31aaf161d0''"
  by (simp add: utf8_def utf8_char_def md5_pad_length [where n = 14] md5_eval)

lemma length_md5: "length (md5 msg) = 16"
  by (simp add: md5_def le_bytes4_def split: prod.splits)

lemma length_hex: "length (hex bs) = 2 * length bs"
  by (induction bs) (simp_all add: hex_def)

lemma generateCacheKey_defined:
  "\<not> nullish r \<Longrightarrow>
   generateCacheKey r =
     Inr (''ai:'' @ to_string (property r ''type'') @ '':'' @ hex (md5 (utf8 (ser r))))"
  by (cases r) (simp_all add: generateCacheKey_def JSON_stringify_def get_prop_def Let_def)

lemma ser_order_a:
  \<open>ser options_order_a =
     ''{"type":"translate","content":"Hi","options":{"targetLanguage":"French","preserveFormatting":true}}''\<close>
  by (simp add: options_order_a_def quote_def escape_char_def)

lemma ser_order_b:
  \<open>ser options_order_b =
     ''{"type":"translate","content":"Hi","options":{"preserveFormatting":true,"targetLanguage":"French"}}''\<close>
  by (simp add: options_order_b_def quote_def escape_char_def)

lemma hash_order_a: "hex (md5 (utf8 (ser options_order_a))) = ''ec27cdb73e917824f421ae17dc702e4e''"
  unfolding ser_order_a
  by (simp add: utf8_def utf8_char_def md5_pad_length [where n = 99] md5_eval)

lemma hash_order_b: "hex (md5 (utf8 (ser options_order_b))) = ''e6dfc6341dba075ad72452665432e1a8''"
  unfolding ser_order_b
  by (simp add: utf8_def utf8_char_def md5_pad_length [where n = 99] md5_eval)

lemma key_order_a: "generateCacheKey options_order_a = Inr ''ai:translate:ec27cdb73e917824f421ae17dc702e4e''"
proof -
  have "\<not> nullish options_order_a" and "property options_order_a ''type'' = JStr ''translate''"
    by (simp_all add: options_order_a_def)
  then show ?thesis
    by (simp add: generateCacheKey_defined hash_order_a)
qed

lemma key_order_b: "generateCacheKey options_order_b = Inr ''ai:translate:e6dfc6341dba075ad72452665432e1a8''"
proof -
  have "\<not> nullish options_order_b" and "property options_order_b ''type'' = JStr ''translate''"
    by (simp_all add: options_order_b_def)
  then show ?thesis
    by (simp add: generateCacheKey_defined hash_order_b)
qed

text \<open>
  C2, as the code has it: \<open>generateCacheKey\<close> is a function of the request alone (it takes
  no state and returns none). For a request that is not \<open>null\<close> or \<open>undefined\<close> the key is
  \<open>ai:\<close>, the type, a colon and the 32 hexadecimal digits of the MD5 of the UTF-8 bytes
  of \<open>JSON.stringify(request)\<close>, which prints the properties of the request and of its
  options in the order the objects have them, unsorted. Two requests with the same
  serialisation and the same type get the same key; two requests that differ in the
  order of their option keys only can get different keys.
\<close>

theorem generateCacheKey_of_serialisation:
  "(\<not> nullish r \<longrightarrow>
      generateCacheKey r =
        Inr (''ai:'' @ to_string (property r ''type'') @ '':'' @ hex (md5 (utf8 (ser r)))))
   \<and> length (hex (md5 (utf8 (ser r)))) = 32
   \<and> ser (JObj [(k1, JStr v1), (k2, JStr v2)]) =
        ''{'' @ quote k1 @ '':'' @ quote v1 @ '','' @ quote k2 @ '':'' @ quote v2 @ ''}''
   \<and> (\<not> nullish r \<and> \<not> nullish r2 \<and> ser r = ser r2
        \<and> to_string (property r ''type'') = to_string (property r2 ''type'') \<longrightarrow>
      generateCacheKey r = generateCacheKey r2)
   \<and> generateCacheKey options_order_a \<noteq> generateCacheKey options_order_b"
  by (simp add: generateCacheKey_defined length_hex length_md5 key_order_a key_order_b)

theorem generateCacheKey_of_serialisation_witness:
  "\<not> nullish options_order_a
   \<and> generateCacheKey options_order_a = Inr ''ai:translate:ec27cdb73e917824f421ae17dc702e4e''
   \<and> \<not> nullish (JObj [(''type'', JStr ''translate''), (''content'', JStr ''Hi''),
                        (''note'', JUndefined),
                        (''options'', JObj [(''targetLanguage'', JStr ''French''),
                                            (''preserveFormatting'', JBool True)])])
   \<and> generateCacheKey
        (JObj [(''type'', JStr ''translate''), (''content'', JStr ''Hi''),
               (''note'', JUndefined),
               (''options'', JObj [(''targetLanguage'', JStr ''French''),
                                   (''preserveFormatting'', JBool True)])])
       = Inr ''ai:translate:ec27cdb73e917824f421ae17dc702e4e''"
proof -
  let ?r2 = "JObj [(''type'', JStr ''translate''), (''content'', JStr ''Hi''),
                   (''note'', JUndefined),
                   (''options'', JObj [(''targetLanguage'', JStr ''French''),
                                       (''preserveFormatting'', JBool True)])]"
  have n: "\<not> nullish options_order_a" "\<not> nullish ?r2"
    by (simp_all add: options_order_a_def)
  have s: "ser options_order_a = ser ?r2"
    by (simp add: options_order_a_def)
  have t: "to_string (property options_order_a ''type'') = to_string (property ?r2 ''type'')"
    by (simp add: options_order_a_def)
  from generateCacheKey_of_serialisation [of options_order_a "[]" "[]" "[]" "[]" ?r2] n s t
  have "generateCacheKey options_order_a = generateCacheKey ?r2"
    by blast
  with n key_order_a show ?thesis
    by simp
qed

theorem options_order_changes_key:
  "generateCacheKey
     (JObj [(''type'', JStr ''translate''), (''content'', JStr ''Hi''),
            (''options'', JObj [(''targetLanguage'', JStr ''French''),
                                (''preserveFormatting'', JBool True)])])
     = Inr ''ai:translate:ec27cdb73e917824f421ae17dc702e4e''
   \<and> generateCacheKey
     (JObj [(''type'', JStr ''translate''), (''content'', JStr ''Hi''),
            (''options'', JObj [(''preserveFormatting'', JBool True),
                                (''targetLanguage'', JStr ''French'')])])
     = Inr ''ai:translate:e6dfc6341dba075ad72452665432e1a8''"
  using key_order_a key_order_b by (simp add: options_order_a_def options_order_b_def)

subsection \<open>The transforms\<close>

lemmas prim_defs = emit_def logger_def date_now_def

lemma invoke_model_step: "invoke_model e s q = (r, s1) \<Longrightarrow> step s s1"
  by (auto simp: invoke_model_def step_def prim_defs split: if_splits)

lemma summarizeText_step: "summarizeText e s content options = (r, s1) \<Longrightarrow> step s s1 \<and> (\<forall>v. r = Inr v \<longrightarrow> (\<exists>kvs. v = JObj kvs))"
  by (auto simp: summarizeText_def Let_def envelope_def invoke_model_def step_def prim_defs
      split: sum.splits if_splits)

lemma analyzeSentiment_step: "analyzeSentiment e s content = (r, s1) \<Longrightarrow> step s s1 \<and> (\<forall>v. r = Inr v \<longrightarrow> (\<exists>kvs. v = JObj kvs))"
  by (auto simp: analyzeSentiment_def ensureInitialized_def init_def Let_def envelope_def invoke_model_def step_def prim_defs
      split: sum.splits if_splits option.splits)

lemma extractKeywords_step: "extractKeywords e s content = (r, s1) \<Longrightarrow> step s s1 \<and> (\<forall>v. r = Inr v \<longrightarrow> (\<exists>kvs. v = JObj kvs))"
  by (auto simp: extractKeywords_def Let_def envelope_def invoke_model_def step_def prim_defs
      split: sum.splits if_splits)

lemma generateContent_step: "generateContent e s content options = (r, s1) \<Longrightarrow> step s s1 \<and> (\<forall>v. r = Inr v \<longrightarrow> (\<exists>kvs. v = JObj kvs))"
  by (auto simp: generateContent_def Let_def envelope_def invoke_model_def step_def prim_defs
      split: sum.splits if_splits)

lemma translateText_step: "translateText e s content options = (r, s1) \<Longrightarrow> step s s1 \<and> (\<forall>v. r = Inr v \<longrightarrow> (\<exists>kvs. v = JObj kvs))"
  by (auto simp: translateText_def Let_def envelope_def invoke_model_def step_def prim_defs
      split: sum.splits if_splits)

lemma dispatch_step: "dispatch e s request = (r, s1) \<Longrightarrow> step s s1 \<and> (\<forall>v. r = Inr v \<longrightarrow> (\<exists>kvs. v = JObj kvs))"
  unfolding dispatch_def Let_def
  by (auto split: if_splits dest: summarizeText_step analyzeSentiment_step extractKeywords_step generateContent_step translateText_step simp: step_def)

subsection \<open>processContent\<close>

lemma dispatch_unsupported:
  "property request ''type'' \<notin> supported \<Longrightarrow>
   dispatch e s request =
     (Inl (Error (''Unsupported AI processing type: '' @ to_string (property request ''type''))), s)"
  by (simp add: dispatch_def supported_def Let_def)

lemma content_length_defined:
  "\<not> nullish (property request ''content'') \<Longrightarrow>
   content_length request = Inr (property (property request ''content'') ''length'')"
  by (simp add: content_length_def get_prop_def)

lemma cached_entry_served:
  assumes "reachable e" "generateCacheKey request = Inr key" "store s key = Some entry" "entry \<noteq> []"
    "\<not> nullish (property request ''content'')" "processContent e s request = (r, s1)"
  shows "r = (case JSON_parse e entry of
                None \<Rightarrow> Inl (SyntaxError ''Unexpected token in JSON'')
              | Some v \<Rightarrow> Inr v)
    \<and> store s1 = store s \<and> invocations s1 = invocations s
    \<and> (\<exists>logs. trace s1 = trace s @ [RedisGet key] @ logs \<and> (\<forall>ev \<in> set logs. is_log ev))"
  using assms
  by (auto simp: processContent_def processContent_begin_def processContent_resume_def
      try_block_def serve_cached_def content_length_defined cache_get_def redis_get_def
      reachable_def prim_defs Let_def split: option.splits)

lemma ser_object_nonempty: "ser (JObj kvs) \<noteq> []"
  by simp

lemma first_call_leaves_entry:
  assumes r: "reachable e" and k: "generateCacheKey request = Inr key"
    and run: "processContent e s request = (Inr v, s1)"
  shows "\<not> nullish (property request ''content'')
    \<and> invocations s1 \<le> invocations s + 1
    \<and> (\<exists>text. store s1 key = Some text \<and> text \<noteq> []
          \<and> (JSON_parse e text = Some v \<or> text = ser v))"
proof -
  have c: "\<not> nullish (property request ''content'')"
    using run k
    by (auto simp: processContent_def processContent_begin_def processContent_resume_def
        try_block_def serve_cached_def compute_and_store_def content_length_def get_prop_def
        prim_defs Let_def split: sum.splits option.splits if_splits prod.splits)
  show ?thesis
  proof (cases "\<exists>text. store s key = Some text \<and> text \<noteq> []")
    case True
    then obtain entry where t: "store s key = Some entry" "entry \<noteq> []" by blast
    from cached_entry_served [OF r k t c run] show ?thesis
      using c t by (auto split: option.splits)
  next
    case False
    then have miss: "store s key = None \<or> store s key = Some []"
      by (cases "store s key") auto
    let ?s0 = "s\<lparr>reads := reads s + 1, trace := trace s @ [RedisGet key]\<rparr>"
    from miss r k run
    have cs: "processContent_resume e ?s0 (Awaiting request key (clock e (reads s)) (Inr (store s key))) = (Inr v, s1)"
      by (auto simp: processContent_def processContent_begin_def cache_get_def redis_get_def
          reachable_def prim_defs Let_def)
    then have cas: "compute_and_store e ?s0 request key (clock e (reads s)) = (Inr v, s1)"
      using miss
      by (auto simp: processContent_resume_def try_block_def split: sum.splits prod.splits if_splits)
    then obtain s2 where d: "dispatch e ?s0 request = (Inr v, s2)"
      by (auto simp: compute_and_store_def split: sum.splits prod.splits)
    from dispatch_step [OF d] obtain kvs where v: "v = JObj kvs" and st: "step ?s0 s2"
      by auto
    from cas d v r c
    have "store s1 key = Some (ser v) \<and> invocations s1 = invocations s2"
      by (auto simp: compute_and_store_def JSON_stringify_def cache_set_def redis_set_def
          cacheTimeout_def reachable_def content_length_defined prim_defs Let_def
          split: sum.splits prod.splits if_splits)
    with st v c show ?thesis
      by (auto simp: step_def)
  qed
qed

lemma ser_hello:
  \<open>ser hello_request = ''{"type":"translate","content":"Hello world!","options":{"targetLanguage":"French"}}''\<close>
  by (simp add: hello_request_def quote_def escape_char_def)

lemma hash_hello: "hex (md5 (utf8 (ser hello_request))) = ''eabfcb1aa1ce67bd876e9d426aa8a758''"
  unfolding ser_hello
  by (simp add: utf8_def utf8_char_def md5_pad_length [where n = 83] md5_eval)

lemma hello_facts:
  "\<not> nullish hello_request"
  "property hello_request ''type'' = JStr ''translate''"
  "property hello_request ''content'' = JStr ''Hello world!''"
  "property hello_request ''options'' = JObj [(''targetLanguage'', JStr ''French'')]"
  by (simp_all add: hello_request_def)

lemma key_hello: "generateCacheKey hello_request = Inr ''ai:translate:eabfcb1aa1ce67bd876e9d426aa8a758''"
  by (simp add: generateCacheKey_defined hello_facts hash_hello)

lemmas run_defs = processContent_def processContent_begin_def processContent_resume_def
  try_block_def serve_cached_def compute_and_store_def dispatch_def content_length_def get_prop_def
  opt_prop_def js_or_def cache_get_def redis_get_def cache_set_def redis_set_def cacheTimeout_def
  invoke_model_def envelope_def JSON_stringify_def prim_defs Let_def

lemma first_hello:
  "processContent cache_up state0 hello_request =
     (Inr (hello_result 1700000000001),
      \<lparr>store = [''ai:translate:eabfcb1aa1ce67bd876e9d426aa8a758'' \<mapsto> ser (hello_result 1700000000001)],
       initialized = True, invocations = 1, reads = 3,
       trace = [RedisGet ''ai:translate:eabfcb1aa1ce67bd876e9d426aa8a758'',
                ModelCall (JObj [(''model'', flash),
                   (''contents'', JStr (translate_prompt (JStr ''French'') (JBool True) (JStr ''Hello world!'')))]),
                RedisSet ''ai:translate:eabfcb1aa1ce67bd876e9d426aa8a758'' (ser (hello_result 1700000000001)) 3600,
                Log ''info'' ''AI processing completed''
                  (JObj [(''processingType'', JStr ''translate''), (''contentLength'', JNum 12),
                         (''processingTime'', JNum 2), (''tokensUsed'', JUndefined)])]\<rparr>)"
  by (simp add: run_defs key_hello hello_facts translateText_def hello_result_def env_eval
      del: ser.simps)

lemma read_hello: "read_json (ser (hello_result 1700000000001)) = Some (hello_result 1700000000001)"
  by (simp add: hello_result_def read_json_eval quote_def escape_char_def show_int_def
      show_nat.simps digit_char_def)

lemma first_down:
  "processContent model_down state0 hello_request =
     (Inl (Error ''503 Service Unavailable''),
      \<lparr>store = Map.empty, initialized = True, invocations = 1, reads = 1,
       trace = [RedisGet ''ai:translate:eabfcb1aa1ce67bd876e9d426aa8a758'',
                ModelCall (JObj [(''model'', flash),
                   (''contents'', JStr (translate_prompt (JStr ''French'') (JBool True) (JStr ''Hello world!'')))]),
                Log ''error'' ''AI processing failed''
                  (JObj [(''error'', JStr ''503 Service Unavailable''),
                         (''processingType'', JStr ''translate''), (''contentLength'', JNum 12)])]\<rparr>)"
  by (simp add: run_defs key_hello hello_facts translateText_def model_down_def env_eval)

text \<open>
  C1, as the code has it: when the cache is reachable and holds a non-empty entry under
  the key of a request that has a content, \<open>processContent\<close> returns what \<open>JSON.parse\<close>
  makes of the entry (its value, or the parse error) and does not invoke the model. So
  when a first call succeeds, a second call in succession invokes the model no more, the
  two together at most once, and the second result is the first result or what
  \<open>JSON.parse\<close> makes of its serialisation: the first result itself where
  \<open>JSON.parse(JSON.stringify(result))\<close> gives the result back.
\<close>

theorem repeated_call_served_from_cache:
  assumes "reachable e" and "generateCacheKey request = Inr key"
  shows
   "(store s key = Some entry \<and> entry \<noteq> [] \<and> \<not> nullish (property request ''content'') \<longrightarrow>
       fst (processContent e s request) =
         (case JSON_parse e entry of
            None \<Rightarrow> Inl (SyntaxError ''Unexpected token in JSON'')
          | Some v \<Rightarrow> Inr v)
       \<and> invocations (snd (processContent e s request)) = invocations s)
    \<and> (processContent e s request = (Inr v1, s1) \<and> processContent e s1 request = (r2, s2) \<longrightarrow>
         invocations s2 \<le> invocations s + 1 \<and> invocations s2 = invocations s1
         \<and> (r2 = Inr v1
             \<or> r2 = (case JSON_parse e (ser v1) of
                       None \<Rightarrow> Inl (SyntaxError ''Unexpected token in JSON'')
                     | Some v \<Rightarrow> Inr v))
         \<and> (JSON_parse e (ser v1) = Some v1 \<longrightarrow> r2 = Inr v1))"
proof (intro conjI impI)
  assume h: "store s key = Some entry \<and> entry \<noteq> [] \<and> \<not> nullish (property request ''content'')"
  obtain r s' where run: "processContent e s request = (r, s')"
    by (cases "processContent e s request")
  from cached_entry_served [OF assms _ _ _ run, of entry] h run
  show "fst (processContent e s request) =
         (case JSON_parse e entry of
            None \<Rightarrow> Inl (SyntaxError ''Unexpected token in JSON'')
          | Some v \<Rightarrow> Inr v)"
    and "invocations (snd (processContent e s request)) = invocations s"
    by simp_all
next
  assume h: "processContent e s request = (Inr v1, s1) \<and> processContent e s1 request = (r2, s2)"
  from first_call_leaves_entry [OF assms, of s v1 s1] h
  obtain entry where c: "\<not> nullish (property request ''content'')"
    and i: "invocations s1 \<le> invocations s + 1"
    and st: "store s1 key = Some entry" "entry \<noteq> []"
    and en: "JSON_parse e entry = Some v1 \<or> entry = ser v1"
    by blast
  from cached_entry_served [OF assms st c, of r2 s2] h
  have r2: "r2 = (case JSON_parse e entry of
                    None \<Rightarrow> Inl (SyntaxError ''Unexpected token in JSON'')
                  | Some v \<Rightarrow> Inr v)"
    and i2: "invocations s2 = invocations s1"
    by simp_all
  from i i2 show "invocations s2 \<le> invocations s + 1" by simp
  from i2 show "invocations s2 = invocations s1" .
  from r2 en show "r2 = Inr v1
             \<or> r2 = (case JSON_parse e (ser v1) of
                       None \<Rightarrow> Inl (SyntaxError ''Unexpected token in JSON'')
                     | Some v \<Rightarrow> Inr v)"
    by auto
  {
    assume "JSON_parse e (ser v1) = Some v1"
    with r2 en show "r2 = Inr v1" by auto
  }
qed

theorem repeated_call_served_from_cache_witness:
  "reachable cache_up
   \<and> generateCacheKey hello_request = Inr ''ai:translate:eabfcb1aa1ce67bd876e9d426aa8a758''
   \<and> fst (processContent cache_up state0 hello_request) = Inr (hello_result 1700000000001)
   \<and> JSON_parse cache_up (ser (hello_result 1700000000001)) = Some (hello_result 1700000000001)
   \<and> fst (processContent cache_up (snd (processContent cache_up state0 hello_request)) hello_request)
       = Inr (hello_result 1700000000001)
   \<and> invocations (snd (processContent cache_up (snd (processContent cache_up state0 hello_request))
                          hello_request)) = 1"
proof -
  let ?s1 = "snd (processContent cache_up state0 hello_request)"
  have r: "reachable cache_up"
    by (simp add: reachable_def env_eval)
  have p: "JSON_parse cache_up (ser (hello_result 1700000000001)) = Some (hello_result 1700000000001)"
    using read_hello by (simp add: env_eval)
  have f: "processContent cache_up state0 hello_request = (Inr (hello_result 1700000000001), ?s1)"
    by (simp add: first_hello)
  have i: "invocations ?s1 = 1"
    by (simp add: first_hello)
  from repeated_call_served_from_cache [OF r key_hello, of state0 "[]" "hello_result 1700000000001" ?s1
         "fst (processContent cache_up ?s1 hello_request)" "snd (processContent cache_up ?s1 hello_request)"]
    f p i
  have "fst (processContent cache_up ?s1 hello_request) = Inr (hello_result 1700000000001)
        \<and> invocations (snd (processContent cache_up ?s1 hello_request)) = 1"
    by simp
  moreover have "fst (processContent cache_up state0 hello_request) = Inr (hello_result 1700000000001)"
    by (simp add: first_hello)
  ultimately show ?thesis
    using r key_hello p by simp
qed

text \<open>
  C1 as stated fails when the first call fails: a failure is not cached, and the second
  call invokes the model again.
\<close>

theorem failed_call_invokes_model_again:
  "fst (processContent model_down state0 hello_request) = Inl (Error ''503 Service Unavailable'')
   \<and> invocations (snd (processContent model_down state0 hello_request)) = 1
   \<and> fst (processContent model_down (snd (processContent model_down state0 hello_request)) hello_request)
       = Inl (Error ''503 Service Unavailable'')
   \<and> invocations (snd (processContent model_down (snd (processContent model_down state0 hello_request))
                          hello_request)) = 2"
  unfolding first_down
  by (simp add: run_defs key_hello hello_facts translateText_def model_down_def env_eval)

lemma ser_unknown: \<open>ser unknown_request = ''{"type":"unknown","content":"x"}''\<close>
  by (simp add: unknown_request_def quote_def escape_char_def)

lemma hash_unknown: "hex (md5 (utf8 (ser unknown_request))) = ''f341d13549f0c9656a4bdde186b85aed''"
  unfolding ser_unknown
  by (simp add: utf8_def utf8_char_def md5_pad_length [where n = 32] md5_eval)

lemma key_unknown: "generateCacheKey unknown_request = Inr ''ai:unknown:f341d13549f0c9656a4bdde186b85aed''"
proof -
  have "\<not> nullish unknown_request" and "property unknown_request ''type'' = JStr ''unknown''"
    by (simp_all add: unknown_request_def)
  then show ?thesis
    by (simp add: generateCacheKey_defined hash_unknown)
qed

lemma unknown_facts:
  "property unknown_request ''type'' = JStr ''unknown''"
  "property unknown_request ''content'' = JStr ''x''"
  by (simp_all add: unknown_request_def)

text \<open>
  C3, as the code has it: for a request whose type is none of the five supported ones and
  that has a content, \<open>processContent\<close> invokes no model and writes nothing to the cache;
  it sends one \<open>GET\<close> to the backend when the client is connected, none otherwise, and
  the rest of what it does is logging. Unless that read finds a non-empty entry, it fails
  with the error \<open>Unsupported AI processing type\<close> naming the type.
\<close>

theorem unsupported_type_no_model_no_set:
  assumes key: "generateCacheKey request = Inr key"
    and ty: "property request ''type'' \<notin> supported"
    and content: "\<not> nullish (property request ''content'')"
    and run: "processContent e s request = (r, s')"
  shows "invocations s' = invocations s \<and> store s' = store s
    \<and> (\<exists>logs. trace s' = trace s @ (if client e \<and> isConnected e then [RedisGet key] else []) @ logs
          \<and> (\<forall>ev \<in> set logs. is_log ev))
    \<and> ((\<not> reachable e \<or> store s key = None \<or> store s key = Some []) \<longrightarrow>
         r = Inl (Error (''Unsupported AI processing type: '' @ to_string (property request ''type''))))"
  using run
  by (auto simp: processContent_def processContent_begin_def processContent_resume_def key
      try_block_def compute_and_store_def serve_cached_def dispatch_unsupported [OF ty]
      content_length_defined [OF content] cache_get_def redis_get_def reachable_def prim_defs Let_def
      split: sum.splits option.splits if_splits)

theorem unsupported_type_no_model_no_set_witness:
  "generateCacheKey unknown_request = Inr ''ai:unknown:f341d13549f0c9656a4bdde186b85aed''
   \<and> property unknown_request ''type'' \<notin> supported
   \<and> \<not> nullish (property unknown_request ''content'')
   \<and> invocations (snd (processContent cache_up state0 unknown_request)) = invocations state0
   \<and> store (snd (processContent cache_up state0 unknown_request)) = store state0
   \<and> fst (processContent cache_up state0 unknown_request) =
        Inl (Error ''Unsupported AI processing type: unknown'')"
proof -
  have ty: "property unknown_request ''type'' \<notin> supported"
    by (simp add: unknown_facts supported_def)
  have c: "\<not> nullish (property unknown_request ''content'')"
    by (simp add: unknown_facts)
  have m: "store state0 ''ai:unknown:f341d13549f0c9656a4bdde186b85aed'' = None"
    by (simp add: state0_def)
  show ?thesis
    using unsupported_type_no_model_no_set [OF key_unknown ty c surjective_pairing, of cache_up state0]
      key_unknown ty c m unknown_facts
    by simp
qed

text \<open>
  C3 as stated fails on the cache: with a connected client the call reads the cache
  before it looks at the type.
\<close>

theorem unsupported_type_reads_cache:
  "processContent cache_up state0 (JObj [(''type'', JStr ''unknown''), (''content'', JStr ''x'')]) =
     (Inl (Error ''Unsupported AI processing type: unknown''),
      \<lparr>store = Map.empty, initialized = True, invocations = 0, reads = 1,
       trace = [RedisGet ''ai:unknown:f341d13549f0c9656a4bdde186b85aed'',
                Log ''error'' ''AI processing failed''
                  (JObj [(''error'', JStr ''Unsupported AI processing type: unknown''),
                         (''processingType'', JStr ''unknown''),
                         (''contentLength'', JNum 1)])]\<rparr>)"
proof -
  have "processContent cache_up state0 unknown_request =
     (Inl (Error ''Unsupported AI processing type: unknown''),
      \<lparr>store = Map.empty, initialized = True, invocations = 0, reads = 1,
       trace = [RedisGet ''ai:unknown:f341d13549f0c9656a4bdde186b85aed'',
                Log ''error'' ''AI processing failed''
                  (JObj [(''error'', JStr ''Unsupported AI processing type: unknown''),
                         (''processingType'', JStr ''unknown''),
                         (''contentLength'', JNum 1)])]\<rparr>)"
    by (simp add: processContent_def processContent_begin_def processContent_resume_def key_unknown
        try_block_def compute_and_store_def dispatch_def unknown_facts content_length_def get_prop_def
        cache_get_def redis_get_def prim_defs Let_def env_with_def cache_up_def state0_def)
  then show ?thesis
    by (simp add: unknown_request_def)
qed

subsection \<open>Validation at the boundary\<close>










subsection \<open>batchProcess\<close>

text \<open>Nothing but \<open>settle_all\<close> settles a promise.\<close>

lemma unsettled_refl [simp]: "unsettled s s"
  by (simp add: unsettled_def)
















lemma settled_in_append [simp]: "settled_in (xs @ ys) = settled_in xs \<union> settled_in ys"
  by (auto simp: settled_in_def)

lemma settled_in_Nil [simp]: "settled_in [] = {}"
  by (simp add: settled_in_def)

lemma settled_in_entry [simp]: "settled_in [batch_failed_entry k err] = {}"
  by (simp add: settled_in_def batch_failed_entry_def)













text \<open>Where a settled promise comes from, and which rejection is thrown.\<close>

lemma processContent_outcome: "outcome_of e request (fst (processContent e s request))"
  unfolding outcome_of_def processContent_def
  by (intro exI [of _ s] exI [of _ "snd (processContent_begin e s request)"])
     (simp add: case_prod_unfold)

lemma failures_append [simp]: "failures (xs @ ys) = failures xs @ failures ys"
  by (induction xs rule: failures.induct) simp_all









text \<open>What a run spends: cache commands and model invocations.\<close>

lemma spent_refl [simp]: "spent g m s s"
  by (simp add: spent_def)










































end
